theory Spec2Isabelle
  imports Main "HOL-Library.Sublist"
begin

section \<open>Backend selection of \<^verbatim>\<open>auto_gptq/utils/import_utils.py\<close>\<close>

text \<open>
  The module probes seven optional extensions when it is imported, keeps the outcome in
  module-level names, and offers \<^verbatim>\<open>dynamically_import_QuantLinear\<close>, which picks
  one \<^verbatim>\<open>QuantLinear\<close> class from them, and two version comparators.  Exceptions are
  values of \<open>error\<close>; the module's names are a record that the selector takes and
  returns, because it assigns \<^verbatim>\<open>_warned\<close>.
\<close>

subsection \<open>Data\<close>

text \<open>
  The exceptions the code raises.  \<open>NameError\<close> carries the name that is not bound,
  \<open>ValueError\<close> and \<open>AssertionError\<close> their message, \<open>Uncaught\<close> the text of an
  exception that a module-level \<^verbatim>\<open>try\<close> does not catch, \<open>InvalidVersion\<close> the text
  of a version string that the version parser refuses, \<open>AttributeError\<close> the name of
  an attribute that an object does not have.
\<close>

datatype error =
    NameError string
  | ValueError string
  | AssertionError string
  | Uncaught string
  | InvalidVersion string
  | AttributeError string

text \<open>
  The class the selector returns, named after the module it is imported from:
  \<open>qlinear_hpu\<close> (spec: hpu), \<open>qlinear_qigen\<close> (qigen), \<open>qlinear_triton\<close> (triton-v1),
  \<open>qlinear_tritonv2\<close> (triton-v2), \<open>qlinear_ipex\<close> (ipex), \<open>qlinear_marlin\<close> (marlin),
  \<open>qlinear_exllamav2\<close> (exllama-v2), \<open>qlinear_exllama\<close> (exllama-v1),
  \<open>qlinear_cuda_old\<close> (cuda-legacy), \<open>qlinear_cuda\<close> (cuda-generic).  The modules
  themselves are not part of this file; importing one is taken to succeed.
\<close>

datatype QuantLinear =
    qlinear_hpu
  | qlinear_qigen
  | qlinear_triton
  | qlinear_tritonv2
  | qlinear_ipex
  | qlinear_marlin
  | qlinear_exllamav2
  | qlinear_exllama
  | qlinear_cuda_old
  | qlinear_cuda

text \<open>
  What one module-level \<^verbatim>\<open>import\<close> does: it succeeds, raises \<^verbatim>\<open>ImportError\<close>, or
  raises another \<^verbatim>\<open>Exception\<close>; the string is \<^verbatim>\<open>str(e)\<close>.
\<close>

datatype import_outcome =
    Imported
  | ImportError string
  | OtherException string

record module_imports =
  import_triton :: import_outcome
  import_autogptq_cuda_64 :: import_outcome
  import_exllama_kernels :: import_outcome
  import_exllamav2_kernels :: import_outcome
  import_cQIGen :: import_outcome
  import_autogptq_marlin_cuda :: import_outcome
  import_intel_extension_for_pytorch :: import_outcome

datatype level = DEBUG | WARNING

text \<open>
  The module's names.  A captured exception is kept as its text (\<open>None\<close> is Python's
  \<^verbatim>\<open>None\<close>).  \<open>warned\<close> is \<^verbatim>\<open>_warned\<close>: \<open>None\<close> when the name is not bound,
  which is the case when line 60 did not run.  \<open>logger\<close> collects the records handed
  to the module's logger.
\<close>

record globals =
  TRITON_AVAILABLE :: bool
  AUTOGPTQ_CUDA_AVAILABLE :: bool
  EXLLAMA_KERNELS_AVAILABLE :: bool
  EXLLAMAV2_KERNELS_AVAILABLE :: bool
  QIGEN_AVAILABLE :: bool
  QIGEN_EXCEPTION :: "string option"
  MARLIN_AVAILABLE :: bool
  MARLIN_EXCEPTION :: "string option"
  IPEX_AVAILABLE :: bool
  IPEX_EXCEPTION :: "string option"
  warned :: "bool option"
  logger :: "(level \<times> string) list"

text \<open>
  What the selector reads from outside the module at call time: whether
  \<^verbatim>\<open>habana_frameworks.torch.hpu\<close> imports, \<^verbatim>\<open>torch.cuda.is_available()\<close> and
  \<^verbatim>\<open>torch.version.hip\<close>.
\<close>

record runtime =
  hpu_importable :: bool
  cuda_is_available :: bool
  version_hip :: "string option"

text \<open>The parameters of \<^verbatim>\<open>dynamically_import_QuantLinear\<close>, lines 69 to 80.\<close>

record arguments =
  use_triton :: bool
  desc_act :: bool
  group_size :: int
  bits :: int
  disable_exllama :: "bool option"
  disable_exllamav2 :: bool
  use_qigen :: bool
  use_marlin :: bool
  use_tritonv2 :: bool
  use_ipex :: bool

text \<open>
  A call that passes the four required parameters and leaves the others at their
  defaults, with \<^verbatim>\<open>use_triton=False\<close>.
\<close>

definition default_preference :: "bool \<Rightarrow> int \<Rightarrow> int \<Rightarrow> arguments" where
  "default_preference da gs b =
     \<lparr>use_triton = False, desc_act = da, group_size = gs, bits = b,
      disable_exllama = None, disable_exllamav2 = False, use_qigen = False,
      use_marlin = False, use_tritonv2 = False, use_ipex = False\<rparr>"

subsection \<open>The capability probe, lines 8 to 63\<close>

definition succeeded :: "import_outcome \<Rightarrow> bool" where
  "succeeded r = (case r of Imported \<Rightarrow> True | _ \<Rightarrow> False)"

text \<open>The exception a \<^verbatim>\<open>except Exception as e\<close> clause binds, as text.\<close>

definition captured :: "import_outcome \<Rightarrow> string option" where
  "captured r = (case r of Imported \<Rightarrow> None | ImportError m \<Rightarrow> Some m | OtherException m \<Rightarrow> Some m)"

text \<open>
  Only the first \<^verbatim>\<open>try\<close> catches \<^verbatim>\<open>ImportError\<close> alone; any other exception of
  \<^verbatim>\<open>import triton\<close> ends the import of the module.  \<^verbatim>\<open>_warned = False\<close> stands in
  the body of the last \<^verbatim>\<open>try\<close>, after the import, and nowhere else.
\<close>

definition probe :: "module_imports \<Rightarrow> error + globals" where
  "probe i =
     (case import_triton i of
        OtherException m \<Rightarrow> Inl (Uncaught m)
      | _ \<Rightarrow>
        Inr \<lparr>TRITON_AVAILABLE = succeeded (import_triton i),
             AUTOGPTQ_CUDA_AVAILABLE = succeeded (import_autogptq_cuda_64 i),
             EXLLAMA_KERNELS_AVAILABLE = succeeded (import_exllama_kernels i),
             EXLLAMAV2_KERNELS_AVAILABLE = succeeded (import_exllamav2_kernels i),
             QIGEN_AVAILABLE = succeeded (import_cQIGen i),
             QIGEN_EXCEPTION = captured (import_cQIGen i),
             MARLIN_AVAILABLE = succeeded (import_autogptq_marlin_cuda i),
             MARLIN_EXCEPTION = captured (import_autogptq_marlin_cuda i),
             IPEX_AVAILABLE = succeeded (import_intel_extension_for_pytorch i),
             IPEX_EXCEPTION = captured (import_intel_extension_for_pytorch i),
             warned = (if succeeded (import_intel_extension_for_pytorch i) then Some False else None),
             logger = []\<rparr>)"

subsection \<open>The selector, lines 69 to 137\<close>

text \<open>An optional exception inside an f-string: \<^verbatim>\<open>str\<close> of it.\<close>

definition fmt :: "string option \<Rightarrow> string" where
  "fmt e = (case e of None \<Rightarrow> ''None'' | Some m \<Rightarrow> m)"

text \<open>Truth value of \<^verbatim>\<open>torch.version.hip\<close>, which is \<^verbatim>\<open>None\<close> or a string.\<close>

definition truthy :: "string option \<Rightarrow> bool" where
  "truthy v = (case v of None \<Rightarrow> False | Some s \<Rightarrow> s \<noteq> [])"

definition emit :: "level \<Rightarrow> string \<Rightarrow> globals \<Rightarrow> globals" where
  "emit l m g = g\<lparr>logger := logger g @ [(l, m)]\<rparr>"

text \<open>
  Lines 89 to 94.  Reading \<^verbatim>\<open>_warned\<close> when the name is not bound raises
  \<^verbatim>\<open>NameError\<close>.  Otherwise the result is the value of \<^verbatim>\<open>use_ipex\<close> after line 94.
\<close>

definition no_cuda_latch :: "runtime \<Rightarrow> arguments \<Rightarrow> globals \<Rightarrow> (error + bool) \<times> globals" where
  "no_cuda_latch rt a g =
     (if \<not> cuda_is_available rt \<and> \<not> use_ipex a then
        (case warned g of
           None \<Rightarrow> (Inl (NameError ''_warned''), g)
         | Some w \<Rightarrow>
             (Inr True,
              if \<not> w
              then (emit WARNING ''No cuda found, set use_ipex=True to use cpu'' g)\<lparr>warned := Some True\<rparr>
              else g))
      else (Inr (use_ipex a), g))"

text \<open>Lines 121 to 125: the value of \<^verbatim>\<open>disable_exllama\<close> after them.\<close>

definition resolve_disable_exllama :: "bool option \<Rightarrow> bool \<Rightarrow> bool" where
  "resolve_disable_exllama d v2 =
     (case d of
        None \<Rightarrow> (if v2 then False else True)
      | Some b \<Rightarrow> b)"

definition qigen_message :: "string option \<Rightarrow> string" where
  "qigen_message e =
     ''QIGen appears to be not available with the error: '' @ fmt e @
     ''. Please check your installation or use `use_qigen=False`.''"

definition ipex_message :: "string option \<Rightarrow> string" where
  "ipex_message e =
     ''IPEX appears to be not available with the error: '' @ fmt e @
     ''. Please install with `pip install intel-extension-for-pytorch`.''"

definition hip_warning :: string where
  "hip_warning =
     ''Running GPTQ triton version on AMD GPUs is untested and may result in errors or wrong predictions. Please use use_triton=False.''"

text \<open>Lines 95 to 137, with \<open>ipex\<close> the value of \<^verbatim>\<open>use_ipex\<close> after line 94.\<close>

definition pick_QuantLinear :: "runtime \<Rightarrow> arguments \<Rightarrow> bool \<Rightarrow> globals \<Rightarrow> (error + QuantLinear) \<times> globals" where
  "pick_QuantLinear rt a ipex g =
     (if use_qigen a then
        (if \<not> QIGEN_AVAILABLE g then (Inl (ValueError (qigen_message (QIGEN_EXCEPTION g))), g)
         else (Inr qlinear_qigen, g))
      else if use_triton a \<or> use_tritonv2 a then
        (let g' = (if truthy (version_hip rt) then emit WARNING hip_warning g else g) in
         if use_tritonv2 a then (Inr qlinear_tritonv2, emit DEBUG ''Using tritonv2 for GPTQ'' g')
         else (Inr qlinear_triton, g'))
      else if ipex then
        (if bits a \<noteq> 4 then (Inl (AssertionError ''IPEX only support 4bit GPTQ''), g)
         else if \<not> IPEX_AVAILABLE g then (Inl (ValueError (ipex_message (IPEX_EXCEPTION g))), g)
         else (Inr qlinear_ipex, g))
      else
        (let disable_exllama' = resolve_disable_exllama (disable_exllama a) (disable_exllamav2 a) in
         if bits a = 4 \<and> use_marlin a then (Inr qlinear_marlin, g)
         else if bits a = 4 \<and> \<not> disable_exllamav2 a \<and> EXLLAMAV2_KERNELS_AVAILABLE g
           then (Inr qlinear_exllamav2, g)
         else if bits a = 4 \<and> \<not> disable_exllama' \<and> EXLLAMA_KERNELS_AVAILABLE g
           then (Inr qlinear_exllama, g)
         else if \<not> desc_act a \<or> group_size a = - 1 then (Inr qlinear_cuda_old, g)
         else (Inr qlinear_cuda, g)))"

text \<open>The whole function: the HPU import of lines 81 to 87 first.\<close>

definition dynamically_import_QuantLinear ::
  "runtime \<Rightarrow> arguments \<Rightarrow> globals \<Rightarrow> (error + QuantLinear) \<times> globals" where
  "dynamically_import_QuantLinear rt a g =
     (if hpu_importable rt then (Inr qlinear_hpu, g)
      else
        (case no_cuda_latch rt a g of
           (Inl e, g') \<Rightarrow> (Inl e, g')
         | (Inr ipex, g') \<Rightarrow> pick_QuantLinear rt a ipex g'))"

subsection \<open>The version comparators, lines 140 to 153\<close>

text \<open>
  \<^verbatim>\<open>packaging.version.parse\<close> belongs to another package, so the parser is a
  parameter \<open>parse_version\<close>: it returns the parsed version, of a linearly ordered type
  \<open>'v\<close> that stands for \<^verbatim>\<open>Version\<close> with its comparison key, or raises.  The
  versions that \<^verbatim>\<open>transformers\<close> and \<^verbatim>\<open>torch\<close> report are read from a record.
\<close>

record installed =
  transformers_version :: string
  torch_version :: string

text \<open>
  \<^verbatim>\<open>getattr(x, f"__{op}__")\<close> for a parsed version \<open>x\<close>, on the names of the rich
  comparisons.  No other name is looked up: the assertion comes first.
\<close>

definition rich_comparison :: "string \<Rightarrow> ('v::linorder \<Rightarrow> 'v \<Rightarrow> bool) option" where
  "rich_comparison op =
     (if op = ''eq'' then Some (\<lambda>x y. x = y)
      else if op = ''ne'' then Some (\<lambda>x y. x \<noteq> y)
      else if op = ''lt'' then Some (\<lambda>x y. x < y)
      else if op = ''le'' then Some (\<lambda>x y. x \<le> y)
      else if op = ''gt'' then Some (\<lambda>x y. y < x)
      else if op = ''ge'' then Some (\<lambda>x y. y \<le> x)
      else None)"

definition compare_transformers_version ::
  "(string \<Rightarrow> error + 'v::linorder) \<Rightarrow> installed \<Rightarrow> string \<Rightarrow> string \<Rightarrow> error + bool" where
  "compare_transformers_version parse_version inst version op =
     (if op \<in> set [''eq'', ''lt'', ''le'', ''gt'', ''ge''] then
        (case parse_version (transformers_version inst) of
           Inl e \<Rightarrow> Inl e
         | Inr x \<Rightarrow>
             (case rich_comparison op of
                None \<Rightarrow> Inl (AttributeError (''__'' @ op @ ''__''))
              | Some r \<Rightarrow>
                  (case parse_version version of
                     Inl e \<Rightarrow> Inl e
                   | Inr y \<Rightarrow> Inr (r x y))))
      else Inl (AssertionError []))"

definition compare_pytorch_version ::
  "(string \<Rightarrow> error + 'v::linorder) \<Rightarrow> installed \<Rightarrow> string \<Rightarrow> string \<Rightarrow> error + bool" where
  "compare_pytorch_version parse_version inst version op =
     (if op \<in> set [''eq'', ''lt'', ''le'', ''gt'', ''ge''] then
        (case parse_version (torch_version inst) of
           Inl e \<Rightarrow> Inl e
         | Inr x \<Rightarrow>
             (case rich_comparison op of
                None \<Rightarrow> Inl (AttributeError (''__'' @ op @ ''__''))
              | Some r \<Rightarrow>
                  (case parse_version version of
                     Inl e \<Rightarrow> Inl e
                   | Inr y \<Rightarrow> Inr (r x y))))
      else Inl (AssertionError []))"

subsection \<open>Predicates of the statements\<close>

text \<open>Every capability flag is false: no optional extension was loaded.\<close>

definition no_extension_loaded :: "globals \<Rightarrow> bool" where
  "no_extension_loaded g =
     (\<not> TRITON_AVAILABLE g \<and> \<not> AUTOGPTQ_CUDA_AVAILABLE g \<and> \<not> EXLLAMA_KERNELS_AVAILABLE g \<and>
      \<not> EXLLAMAV2_KERNELS_AVAILABLE g \<and> \<not> QIGEN_AVAILABLE g \<and> \<not> MARLIN_AVAILABLE g \<and>
      \<not> IPEX_AVAILABLE g)"

subsection \<open>Concrete machines and calls\<close>

text \<open>A machine on which no optional extension is installed.\<close>

definition nothing_importable :: module_imports where
  "nothing_importable =
     \<lparr>import_triton = ImportError ''No module named triton'',
      import_autogptq_cuda_64 = ImportError ''No module named autogptq_cuda_64'',
      import_exllama_kernels = ImportError ''No module named exllama_kernels'',
      import_exllamav2_kernels = ImportError ''No module named exllamav2_kernels'',
      import_cQIGen = ImportError ''No module named cQIGen'',
      import_autogptq_marlin_cuda = ImportError ''No module named autogptq_marlin_cuda'',
      import_intel_extension_for_pytorch = ImportError ''No module named intel_extension_for_pytorch''\<rparr>"

text \<open>The module's names after it was imported on that machine.\<close>

definition all_unavailable :: globals where
  "all_unavailable =
     \<lparr>TRITON_AVAILABLE = False, AUTOGPTQ_CUDA_AVAILABLE = False,
      EXLLAMA_KERNELS_AVAILABLE = False, EXLLAMAV2_KERNELS_AVAILABLE = False,
      QIGEN_AVAILABLE = False, QIGEN_EXCEPTION = Some ''No module named cQIGen'',
      MARLIN_AVAILABLE = False, MARLIN_EXCEPTION = Some ''No module named autogptq_marlin_cuda'',
      IPEX_AVAILABLE = False, IPEX_EXCEPTION = Some ''No module named intel_extension_for_pytorch'',
      warned = None, logger = []\<rparr>"

text \<open>The same machine with the QIGen extension built, and with the ExLlama kernels built.\<close>

definition only_qigen :: globals where
  "only_qigen = all_unavailable\<lparr>QIGEN_AVAILABLE := True, QIGEN_EXCEPTION := None\<rparr>"

definition only_exllama :: globals where
  "only_exllama =
     all_unavailable\<lparr>EXLLAMA_KERNELS_AVAILABLE := True, EXLLAMAV2_KERNELS_AVAILABLE := True\<rparr>"

text \<open>A machine with the Intel extension, before any call.\<close>

definition only_ipex :: globals where
  "only_ipex = all_unavailable\<lparr>IPEX_AVAILABLE := True, IPEX_EXCEPTION := None, warned := Some False\<rparr>"

definition cpu_only :: runtime where
  "cpu_only = \<lparr>hpu_importable = False, cuda_is_available = False, version_hip = None\<rparr>"

definition cuda_machine :: runtime where
  "cuda_machine = \<lparr>hpu_importable = False, cuda_is_available = True, version_hip = None\<rparr>"

definition hpu_machine :: runtime where
  "hpu_machine = \<lparr>hpu_importable = True, cuda_is_available = False, version_hip = None\<rparr>"

text \<open>A small version parser for the examples: four version strings and their keys.\<close>

definition known_versions :: "string \<Rightarrow> error + nat" where
  "known_versions s =
     (if s = ''v4.28.0'' then Inr 42800
      else if s = ''4.30.2'' then Inr 43002
      else if s = ''v2.0.0'' then Inr 20000
      else if s = ''2.1.0'' then Inr 20100
      else Inl (InvalidVersion s))"

definition installed_here :: installed where
  "installed_here = \<lparr>transformers_version = ''4.30.2'', torch_version = ''2.1.0''\<rparr>"

section \<open>Properties\<close>

subsection \<open>Auxiliary facts\<close>

lemmas sel_defs = dynamically_import_QuantLinear_def no_cuda_latch_def pick_QuantLinear_def

text \<open>The latch leaves \<^verbatim>\<open>use_ipex\<close> alone exactly when CUDA is there or it was requested.\<close>

lemma latch_cuda: "cuda_is_available rt \<Longrightarrow> no_cuda_latch rt a g = (Inr (use_ipex a), g)"
  by (simp add: no_cuda_latch_def)

lemma latch_requested: "use_ipex a \<Longrightarrow> no_cuda_latch rt a g = (Inr True, g)"
  by (simp add: no_cuda_latch_def)

lemma latch_unbound:
  "\<not> cuda_is_available rt \<Longrightarrow> \<not> use_ipex a \<Longrightarrow> warned g = None \<Longrightarrow>
   no_cuda_latch rt a g = (Inl (NameError ''_warned''), g)"
  by (simp add: no_cuda_latch_def)

lemma latch_bound:
  "\<not> cuda_is_available rt \<Longrightarrow> \<not> use_ipex a \<Longrightarrow> warned g = Some w \<Longrightarrow>
   no_cuda_latch rt a g =
     (Inr True,
      if w then g
      else (emit WARNING ''No cuda found, set use_ipex=True to use cpu'' g)\<lparr>warned := Some True\<rparr>)"
  by (simp add: no_cuda_latch_def)

lemma effective_use_ipex_false:
  "fst (no_cuda_latch rt a g) = Inr False \<longleftrightarrow> cuda_is_available rt \<and> \<not> use_ipex a"
  by (cases "warned g") (auto simp: no_cuda_latch_def)

lemma emit_flags [simp]:
  "QIGEN_AVAILABLE (emit l m g) = QIGEN_AVAILABLE g"
  "QIGEN_EXCEPTION (emit l m g) = QIGEN_EXCEPTION g"
  "IPEX_AVAILABLE (emit l m g) = IPEX_AVAILABLE g"
  "IPEX_EXCEPTION (emit l m g) = IPEX_EXCEPTION g"
  "EXLLAMA_KERNELS_AVAILABLE (emit l m g) = EXLLAMA_KERNELS_AVAILABLE g"
  "EXLLAMAV2_KERNELS_AVAILABLE (emit l m g) = EXLLAMAV2_KERNELS_AVAILABLE g"
  "warned (emit l m g) = warned g"
  by (simp_all add: emit_def)

text \<open>
  What the probe leaves behind.  On a machine without any extension the module's names
  are \<open>all_unavailable\<close>; and whenever the Intel extension did not load, its exception
  was captured and \<^verbatim>\<open>_warned\<close> is not bound.
\<close>

lemma probe_nothing_importable: "probe nothing_importable = Inr all_unavailable"
  by (simp add: probe_def nothing_importable_def all_unavailable_def succeeded_def captured_def)

lemma probe_without_ipex:
  assumes "probe i = Inr g" and "\<not> IPEX_AVAILABLE g"
  shows "warned g = None \<and> (\<exists>m. IPEX_EXCEPTION g = Some m)"
proof -
  from assms(1) have g: "IPEX_AVAILABLE g = succeeded (import_intel_extension_for_pytorch i)"
      "IPEX_EXCEPTION g = captured (import_intel_extension_for_pytorch i)"
      "warned g = (if succeeded (import_intel_extension_for_pytorch i) then Some False else None)"
    by (auto simp: probe_def split: import_outcome.splits)
  with assms(2) show ?thesis
    by (cases "import_intel_extension_for_pytorch i") (simp_all add: succeeded_def captured_def)
qed

lemma probe_with_ipex:
  assumes "probe i = Inr g" and "IPEX_AVAILABLE g"
  shows "warned g = Some False"
  using assms by (auto simp: probe_def split: import_outcome.splits if_splits)

text \<open>The two messages hold the captured diagnostic.\<close>

lemma qigen_message_contains: "sublist d (qigen_message (Some d))"
  unfolding qigen_message_def fmt_def option.case by (rule sublist_appendI)

lemma ipex_message_contains: "sublist d (ipex_message (Some d))"
  unfolding ipex_message_def fmt_def option.case by (rule sublist_appendI)

text \<open>A call never binds \<^verbatim>\<open>_warned\<close> when it was not bound, and never changes a flag.\<close>

lemma call_keeps_unbound:
  "warned g = None \<Longrightarrow> warned (snd (dynamically_import_QuantLinear rt a g)) = None"
  by (auto simp: sel_defs Let_def emit_def)



subsection \<open>The HPU override\<close>

text \<open>
  Claim C2.  When \<^verbatim>\<open>habana_frameworks.torch.hpu\<close> imports at call time, the selector
  returns the HPU class for every configuration, every preference and every state of the
  module's names, and it leaves those names as they were: nothing else is read.
\<close>

theorem hpu_short_circuit:
  "hpu_importable rt \<Longrightarrow> dynamically_import_QuantLinear rt a g = (Inr qlinear_hpu, g)"
  by (simp add: dynamically_import_QuantLinear_def)

theorem hpu_short_circuit_witness:
  "hpu_importable hpu_machine \<and>
   dynamically_import_QuantLinear hpu_machine
     ((default_preference True 128 8)\<lparr>use_qigen := True, use_ipex := True\<rparr>) all_unavailable
     = (Inr qlinear_hpu, all_unavailable)"
  using hpu_short_circuit
    [of hpu_machine "(default_preference True 128 8)\<lparr>use_qigen := True, use_ipex := True\<rparr>"
        all_unavailable]
  by (simp add: hpu_machine_def)

subsection \<open>Without any extension\<close>

text \<open>
  Claim C1, as the code has it.  With HPU absent, CUDA available, every capability flag
  false and the default preference, the selector returns \<open>qlinear_cuda_old\<close> if
  \<^verbatim>\<open>desc_act\<close> is false or \<^verbatim>\<open>group_size\<close> is -1 and \<open>qlinear_cuda\<close> otherwise, for
  every configuration; it raises nothing and leaves the module's names as they were.
\<close>

theorem fallback_without_extensions:
  assumes "\<not> hpu_importable rt" and "cuda_is_available rt" and "no_extension_loaded g"
  shows "dynamically_import_QuantLinear rt (default_preference da gs b) g =
           (Inr (if \<not> da \<or> gs = - 1 then qlinear_cuda_old else qlinear_cuda), g)"
proof -
  have "no_cuda_latch rt (default_preference da gs b) g = (Inr False, g)"
    using assms(2) by (simp add: latch_cuda default_preference_def)
  with assms(1) have "dynamically_import_QuantLinear rt (default_preference da gs b) g =
      pick_QuantLinear rt (default_preference da gs b) False g"
    by (simp add: dynamically_import_QuantLinear_def)
  also from assms(3) have "\<dots> =
      (Inr (if \<not> da \<or> gs = - 1 then qlinear_cuda_old else qlinear_cuda), g)"
    by (simp add: pick_QuantLinear_def default_preference_def no_extension_loaded_def Let_def)
  finally show ?thesis .
qed

theorem fallback_without_extensions_witness:
  "\<not> hpu_importable cuda_machine \<and> cuda_is_available cuda_machine \<and>
   no_extension_loaded all_unavailable \<and>
   dynamically_import_QuantLinear cuda_machine (default_preference True 128 4) all_unavailable
     = (Inr qlinear_cuda, all_unavailable) \<and>
   dynamically_import_QuantLinear cuda_machine (default_preference False 128 4) all_unavailable
     = (Inr qlinear_cuda_old, all_unavailable) \<and>
   dynamically_import_QuantLinear cuda_machine (default_preference True (- 1) 8) all_unavailable
     = (Inr qlinear_cuda_old, all_unavailable)"
  using fallback_without_extensions [of cuda_machine all_unavailable True 128 4]
        fallback_without_extensions [of cuda_machine all_unavailable False 128 4]
        fallback_without_extensions [of cuda_machine all_unavailable True "- 1" 8]
  by (simp add: cuda_machine_def no_extension_loaded_def all_unavailable_def)

text \<open>
  The claim as it is written fails on a machine with neither CUDA nor any extension:
  the default call for a 4-bit layer without grouping raises.
\<close>

theorem fallback_without_gpu_counterexample:
  "fst (dynamically_import_QuantLinear cpu_only (default_preference False (- 1) 4) all_unavailable)
   = Inl (NameError ''_warned'')"
  by (simp add: sel_defs cpu_only_def default_preference_def all_unavailable_def)

text \<open>
  Line 94 sends a default call without CUDA to the IPEX branch.  Where \<^verbatim>\<open>_warned\<close> is
  bound and the IPEX flag is false, that branch refuses the call: with the assertion
  when \<^verbatim>\<open>bits\<close> is not 4, with the IPEX message otherwise.  So the generic classes
  are out of reach without CUDA, whatever the latch does.
\<close>

lemma forced_ipex_refused:
  assumes "\<not> hpu_importable rt" and "\<not> cuda_is_available rt"
    and "\<not> IPEX_AVAILABLE g" and "warned g = Some w"
  shows "fst (dynamically_import_QuantLinear rt (default_preference da gs b) g) =
           (if b \<noteq> 4 then Inl (AssertionError ''IPEX only support 4bit GPTQ'')
            else Inl (ValueError (ipex_message (IPEX_EXCEPTION g))))"
proof -
  have "\<not> use_ipex (default_preference da gs b)"
    by (simp add: default_preference_def)
  from latch_bound [OF assms(2) this assms(4)] assms(1,3) show ?thesis
    by (simp add: dynamically_import_QuantLinear_def pick_QuantLinear_def default_preference_def)
qed

lemma no_generic_class_without_cuda:
  assumes "\<not> hpu_importable rt" and "\<not> cuda_is_available rt"
  shows "fst (dynamically_import_QuantLinear rt (default_preference da gs b) g)
           \<notin> {Inr qlinear_cuda_old, Inr qlinear_cuda}"
  using assms
  by (cases "warned g")
     (auto simp: dynamically_import_QuantLinear_def latch_unbound latch_bound
        pick_QuantLinear_def default_preference_def)

subsection \<open>Requested backends: QIGen, Triton, IPEX\<close>

text \<open>
  Claim C7, as the code has it.  With HPU absent and \<^verbatim>\<open>use_qigen\<close> set, the call
  raises \<^verbatim>\<open>NameError\<close> when CUDA is not available, \<^verbatim>\<open>use_ipex\<close> was not passed and
  \<^verbatim>\<open>_warned\<close> is not bound; otherwise it raises \<^verbatim>\<open>ValueError\<close> with the QIGen
  message when the QIGen flag is false, and returns the QIGen class when the flag is
  true, whatever the configuration and the other preferences are.
\<close>

theorem qigen_request:
  "\<not> hpu_importable rt \<Longrightarrow> use_qigen a \<Longrightarrow>
   fst (dynamically_import_QuantLinear rt a g) =
     (if \<not> cuda_is_available rt \<and> \<not> use_ipex a \<and> warned g = None
      then Inl (NameError ''_warned'')
      else if \<not> QIGEN_AVAILABLE g then Inl (ValueError (qigen_message (QIGEN_EXCEPTION g)))
      else Inr qlinear_qigen)"
proof (cases "cuda_is_available rt \<or> use_ipex a")
  case True
  assume "\<not> hpu_importable rt" "use_qigen a"
  with True show ?thesis
    by (auto simp: dynamically_import_QuantLinear_def latch_cuda latch_requested
        pick_QuantLinear_def)
next
  case False
  assume "\<not> hpu_importable rt" "use_qigen a"
  with False show ?thesis
    by (cases "warned g")
       (simp_all add: dynamically_import_QuantLinear_def latch_unbound latch_bound
          pick_QuantLinear_def)
qed

theorem qigen_request_witness:
  "\<not> hpu_importable cpu_only \<and> use_qigen ((default_preference False 128 4)\<lparr>use_qigen := True\<rparr>) \<and>
   fst (dynamically_import_QuantLinear cpu_only
          ((default_preference False 128 4)\<lparr>use_qigen := True\<rparr>) only_qigen)
     = Inl (NameError ''_warned'') \<and>
   fst (dynamically_import_QuantLinear cuda_machine
          ((default_preference False 128 4)\<lparr>use_qigen := True\<rparr>) only_qigen)
     = Inr qlinear_qigen \<and>
   fst (dynamically_import_QuantLinear cuda_machine
          ((default_preference False 128 4)\<lparr>use_qigen := True\<rparr>) all_unavailable)
     = Inl (ValueError (qigen_message (Some ''No module named cQIGen'')))"
  using qigen_request [of cpu_only "(default_preference False 128 4)\<lparr>use_qigen := True\<rparr>" only_qigen]
        qigen_request [of cuda_machine "(default_preference False 128 4)\<lparr>use_qigen := True\<rparr>" only_qigen]
        qigen_request [of cuda_machine "(default_preference False 128 4)\<lparr>use_qigen := True\<rparr>" all_unavailable]
  by (simp add: cpu_only_def cuda_machine_def default_preference_def only_qigen_def
      all_unavailable_def)

text \<open>
  Claim C3, as the code has it.  With HPU absent, \<^verbatim>\<open>use_qigen\<close> false and
  \<^verbatim>\<open>use_triton\<close> or \<^verbatim>\<open>use_tritonv2\<close> set, the call raises \<^verbatim>\<open>NameError\<close> when CUDA is
  not available, \<^verbatim>\<open>use_ipex\<close> was not passed and \<^verbatim>\<open>_warned\<close> is not bound; otherwise
  it returns the Triton v2 class when \<^verbatim>\<open>use_tritonv2\<close> is set and the Triton class when
  it is not.  The Triton flag is never read.
\<close>

theorem triton_request:
  "\<not> hpu_importable rt \<Longrightarrow> \<not> use_qigen a \<Longrightarrow> use_triton a \<or> use_tritonv2 a \<Longrightarrow>
   fst (dynamically_import_QuantLinear rt a g) =
     (if \<not> cuda_is_available rt \<and> \<not> use_ipex a \<and> warned g = None
      then Inl (NameError ''_warned'')
      else Inr (if use_tritonv2 a then qlinear_tritonv2 else qlinear_triton))"
  by (cases "warned g") (auto simp: sel_defs Let_def)

theorem triton_request_witness:
  "\<not> hpu_importable cpu_only \<and>
   \<not> use_qigen ((default_preference False 128 4)\<lparr>use_triton := True\<rparr>) \<and>
   use_triton ((default_preference False 128 4)\<lparr>use_triton := True\<rparr>) \<and>
   fst (dynamically_import_QuantLinear cpu_only
          ((default_preference False 128 4)\<lparr>use_triton := True\<rparr>) all_unavailable)
     = Inl (NameError ''_warned'') \<and>
   fst (dynamically_import_QuantLinear cuda_machine
          ((default_preference False 128 4)\<lparr>use_triton := True\<rparr>) all_unavailable)
     = Inr qlinear_triton \<and>
   fst (dynamically_import_QuantLinear cuda_machine
          ((default_preference False 128 4)\<lparr>use_tritonv2 := True\<rparr>) all_unavailable)
     = Inr qlinear_tritonv2"
  using triton_request [of cpu_only "(default_preference False 128 4)\<lparr>use_triton := True\<rparr>" all_unavailable]
        triton_request [of cuda_machine "(default_preference False 128 4)\<lparr>use_triton := True\<rparr>" all_unavailable]
        triton_request [of cuda_machine "(default_preference False 128 4)\<lparr>use_tritonv2 := True\<rparr>" all_unavailable]
  by (simp add: cpu_only_def cuda_machine_def default_preference_def all_unavailable_def)

text \<open>
  Claim C6, as the code has it.  With HPU absent, \<^verbatim>\<open>use_qigen\<close>, \<^verbatim>\<open>use_triton\<close> and
  \<^verbatim>\<open>use_tritonv2\<close> false, and \<^verbatim>\<open>use_ipex\<close> passed or forced by the absence of CUDA:
  the call raises \<^verbatim>\<open>NameError\<close> when \<^verbatim>\<open>use_ipex\<close> was forced and \<^verbatim>\<open>_warned\<close> is not
  bound; otherwise it raises \<^verbatim>\<open>AssertionError\<close> when \<^verbatim>\<open>bits\<close> is not 4, else
  \<^verbatim>\<open>ValueError\<close> with the IPEX message when the IPEX flag is false, else it returns the
  IPEX class.
\<close>

theorem ipex_request:
  "\<not> hpu_importable rt \<Longrightarrow> \<not> use_qigen a \<Longrightarrow> \<not> use_triton a \<Longrightarrow> \<not> use_tritonv2 a \<Longrightarrow>
   use_ipex a \<or> \<not> cuda_is_available rt \<Longrightarrow>
   fst (dynamically_import_QuantLinear rt a g) =
     (if \<not> use_ipex a \<and> warned g = None then Inl (NameError ''_warned'')
      else if bits a \<noteq> 4 then Inl (AssertionError ''IPEX only support 4bit GPTQ'')
      else if \<not> IPEX_AVAILABLE g then Inl (ValueError (ipex_message (IPEX_EXCEPTION g)))
      else Inr qlinear_ipex)"
  by (cases "warned g") (auto simp: sel_defs Let_def)

theorem ipex_request_witness:
  "\<not> hpu_importable cpu_only \<and> \<not> cuda_is_available cpu_only \<and>
   fst (dynamically_import_QuantLinear cpu_only (default_preference False 128 4) all_unavailable)
     = Inl (NameError ''_warned'') \<and>
   fst (dynamically_import_QuantLinear cpu_only
          ((default_preference False 128 4)\<lparr>use_ipex := True\<rparr>) all_unavailable)
     = Inl (ValueError (ipex_message (Some ''No module named intel_extension_for_pytorch''))) \<and>
   fst (dynamically_import_QuantLinear cuda_machine
          ((default_preference False 128 8)\<lparr>use_ipex := True\<rparr>) only_ipex)
     = Inl (AssertionError ''IPEX only support 4bit GPTQ'') \<and>
   fst (dynamically_import_QuantLinear cpu_only (default_preference False 128 4) only_ipex)
     = Inr qlinear_ipex"
  using ipex_request [of cpu_only "default_preference False 128 4" all_unavailable]
        ipex_request [of cpu_only "(default_preference False 128 4)\<lparr>use_ipex := True\<rparr>" all_unavailable]
        ipex_request [of cuda_machine "(default_preference False 128 8)\<lparr>use_ipex := True\<rparr>" only_ipex]
        ipex_request [of cpu_only "default_preference False 128 4" only_ipex]
  by (simp add: cpu_only_def cuda_machine_def default_preference_def all_unavailable_def
      only_ipex_def)

subsection \<open>The default CUDA family\<close>

text \<open>
  The default family is reached when HPU is absent, CUDA is available and none of
  \<^verbatim>\<open>use_qigen\<close>, \<^verbatim>\<open>use_triton\<close>, \<^verbatim>\<open>use_tritonv2\<close>, \<^verbatim>\<open>use_ipex\<close> is set: by
  \<open>effective_use_ipex_false\<close>, \<^verbatim>\<open>use_ipex\<close> is false after line 94 exactly when CUDA is
  available and it was not passed.

  Claim C4.  In the default family, with \<^verbatim>\<open>bits == 4\<close> and \<^verbatim>\<open>use_marlin\<close> set, the
  selector returns the Marlin class, for every state of the capability flags: the Marlin
  flag is not read, and a true ExLlama v2 flag does not matter.
\<close>

theorem marlin_priority:
  "\<not> hpu_importable rt \<Longrightarrow> cuda_is_available rt \<Longrightarrow> \<not> use_qigen a \<Longrightarrow> \<not> use_triton a \<Longrightarrow>
   \<not> use_tritonv2 a \<Longrightarrow> \<not> use_ipex a \<Longrightarrow> bits a = 4 \<Longrightarrow> use_marlin a \<Longrightarrow>
   dynamically_import_QuantLinear rt a g = (Inr qlinear_marlin, g)"
  by (simp add: dynamically_import_QuantLinear_def latch_cuda pick_QuantLinear_def Let_def)

theorem marlin_priority_witness:
  "EXLLAMAV2_KERNELS_AVAILABLE only_exllama \<and> \<not> MARLIN_AVAILABLE only_exllama \<and>
   \<not> disable_exllamav2 ((default_preference True 128 4)\<lparr>use_marlin := True\<rparr>) \<and>
   dynamically_import_QuantLinear cuda_machine
     ((default_preference True 128 4)\<lparr>use_marlin := True\<rparr>) only_exllama
     = (Inr qlinear_marlin, only_exllama)"
  using marlin_priority
    [of cuda_machine "(default_preference True 128 4)\<lparr>use_marlin := True\<rparr>" only_exllama]
  by (simp add: cuda_machine_def default_preference_def only_exllama_def all_unavailable_def)



text \<open>
  Claim C8.  In the default family, when the Marlin, ExLlama v2 and ExLlama branches are
  not taken, the selector returns \<open>qlinear_cuda_old\<close> if \<^verbatim>\<open>desc_act\<close> is false or
  \<^verbatim>\<open>group_size\<close> is -1, and \<open>qlinear_cuda\<close> otherwise.  The default preference with
  \<^verbatim>\<open>bits=4\<close>, \<^verbatim>\<open>group_size=-1\<close>, \<^verbatim>\<open>desc_act=False\<close> and both ExLlama flags false gives
  \<open>qlinear_cuda_old\<close>.
\<close>

theorem cuda_fallback_choice:
  assumes "\<not> hpu_importable rt" and "cuda_is_available rt"
  shows "(\<not> use_qigen a \<and> \<not> use_triton a \<and> \<not> use_tritonv2 a \<and> \<not> use_ipex a \<and>
          \<not> (bits a = 4 \<and> use_marlin a) \<and>
          \<not> (bits a = 4 \<and> \<not> disable_exllamav2 a \<and> EXLLAMAV2_KERNELS_AVAILABLE g) \<and>
          \<not> (bits a = 4 \<and> \<not> resolve_disable_exllama (disable_exllama a) (disable_exllamav2 a) \<and>
               EXLLAMA_KERNELS_AVAILABLE g) \<longrightarrow>
          dynamically_import_QuantLinear rt a g =
            (Inr (if \<not> desc_act a \<or> group_size a = - 1 then qlinear_cuda_old else qlinear_cuda), g) \<and>
          (fst (dynamically_import_QuantLinear rt a g) = Inr qlinear_cuda_old
             \<longleftrightarrow> (\<not> desc_act a \<or> group_size a = - 1))) \<and>
         (\<not> EXLLAMAV2_KERNELS_AVAILABLE g \<and> \<not> EXLLAMA_KERNELS_AVAILABLE g \<longrightarrow>
          dynamically_import_QuantLinear rt (default_preference False (- 1) 4) g =
            (Inr qlinear_cuda_old, g))"
proof -
  have sel: "dynamically_import_QuantLinear rt x g = pick_QuantLinear rt x (use_ipex x) g" for x
    using assms by (simp add: dynamically_import_QuantLinear_def latch_cuda)
  show ?thesis
    unfolding sel by (auto simp: pick_QuantLinear_def default_preference_def Let_def)
qed

theorem cuda_fallback_choice_witness:
  "\<not> hpu_importable cuda_machine \<and> cuda_is_available cuda_machine \<and>
   \<not> EXLLAMAV2_KERNELS_AVAILABLE all_unavailable \<and> \<not> EXLLAMA_KERNELS_AVAILABLE all_unavailable \<and>
   dynamically_import_QuantLinear cuda_machine (default_preference False (- 1) 4) all_unavailable
     = (Inr qlinear_cuda_old, all_unavailable) \<and>
   dynamically_import_QuantLinear cuda_machine (default_preference True 128 8) only_exllama
     = (Inr qlinear_cuda, only_exllama)"
  using cuda_fallback_choice [of cuda_machine "default_preference True 128 8" only_exllama]
        cuda_fallback_choice [of cuda_machine "default_preference True 128 8" all_unavailable]
  by (simp add: cuda_machine_def default_preference_def all_unavailable_def only_exllama_def)

text \<open>
  Claim C10.  With \<^verbatim>\<open>disable_exllama\<close> unset and \<^verbatim>\<open>disable_exllamav2\<close> false, the
  selector never returns the ExLlama (v1) class, on any machine, for any configuration
  and any state of the capability flags.
\<close>

theorem exllama_v1_off_by_default:
  "disable_exllama a = None \<Longrightarrow> \<not> disable_exllamav2 a \<Longrightarrow>
   fst (dynamically_import_QuantLinear rt a g) \<noteq> Inr qlinear_exllama"
proof (cases "hpu_importable rt")
  case True
  then show ?thesis by (simp add: dynamically_import_QuantLinear_def)
next
  case False
  assume unset: "disable_exllama a = None" "\<not> disable_exllamav2 a"
  have pick: "fst (pick_QuantLinear rt a i g') \<noteq> Inr qlinear_exllama" for i g'
    using unset by (simp add: pick_QuantLinear_def resolve_disable_exllama_def Let_def)
  show ?thesis
    using False pick
    by (simp add: dynamically_import_QuantLinear_def split: prod.splits sum.splits)
qed

theorem exllama_v1_off_by_default_witness:
  "disable_exllama (default_preference True 128 4) = None \<and>
   \<not> disable_exllamav2 (default_preference True 128 4) \<and>
   EXLLAMA_KERNELS_AVAILABLE (only_exllama\<lparr>EXLLAMAV2_KERNELS_AVAILABLE := False\<rparr>) \<and>
   fst (dynamically_import_QuantLinear cuda_machine (default_preference True 128 4)
          (only_exllama\<lparr>EXLLAMAV2_KERNELS_AVAILABLE := False\<rparr>)) \<noteq> Inr qlinear_exllama"
  using exllama_v1_off_by_default
    [of "default_preference True 128 4" cuda_machine
        "only_exllama\<lparr>EXLLAMAV2_KERNELS_AVAILABLE := False\<rparr>"]
  by (simp add: default_preference_def only_exllama_def all_unavailable_def)

text \<open>The ExLlama (v1) class is reached once the caller disables v2 or enables v1.\<close>

lemma exllama_v1_on_request:
  "dynamically_import_QuantLinear cuda_machine
     ((default_preference True 128 4)\<lparr>disable_exllamav2 := True\<rparr>) only_exllama
     = (Inr qlinear_exllama, only_exllama) \<and>
   dynamically_import_QuantLinear cuda_machine
     ((default_preference True 128 4)\<lparr>disable_exllama := Some False\<rparr>)
     (only_exllama\<lparr>EXLLAMAV2_KERNELS_AVAILABLE := False\<rparr>)
     = (Inr qlinear_exllama, only_exllama\<lparr>EXLLAMAV2_KERNELS_AVAILABLE := False\<rparr>)"
  by (simp add: sel_defs cuda_machine_def default_preference_def only_exllama_def
      all_unavailable_def resolve_disable_exllama_def)

subsection \<open>The version comparators\<close>

text \<open>
  Claim C9.  Both comparators raise \<^verbatim>\<open>AssertionError\<close> for every operator outside
  eq, lt, le, gt, ge, before anything else is looked at; for an operator of the set, and
  version strings that the parser accepts, they return the comparison of the installed
  version with the target under that operator.
\<close>

theorem version_comparators:
  fixes pv :: "string \<Rightarrow> error + 'v::linorder"
  shows
  "(op \<notin> set [''eq'', ''lt'', ''le'', ''gt'', ''ge''] \<longrightarrow>
      compare_transformers_version pv inst v op = Inl (AssertionError []) \<and>
      compare_pytorch_version pv inst v op = Inl (AssertionError [])) \<and>
   (pv (transformers_version inst) = Inr x \<and> pv v = Inr y \<longrightarrow>
      compare_transformers_version pv inst v ''eq'' = Inr (x = y) \<and>
      compare_transformers_version pv inst v ''lt'' = Inr (x < y) \<and>
      compare_transformers_version pv inst v ''le'' = Inr (x \<le> y) \<and>
      compare_transformers_version pv inst v ''gt'' = Inr (x > y) \<and>
      compare_transformers_version pv inst v ''ge'' = Inr (x \<ge> y)) \<and>
   (pv (torch_version inst) = Inr x' \<and> pv v = Inr y \<longrightarrow>
      compare_pytorch_version pv inst v ''eq'' = Inr (x' = y) \<and>
      compare_pytorch_version pv inst v ''lt'' = Inr (x' < y) \<and>
      compare_pytorch_version pv inst v ''le'' = Inr (x' \<le> y) \<and>
      compare_pytorch_version pv inst v ''gt'' = Inr (x' > y) \<and>
      compare_pytorch_version pv inst v ''ge'' = Inr (x' \<ge> y))"
  by (simp add: compare_transformers_version_def compare_pytorch_version_def rich_comparison_def)

theorem version_comparators_witness:
  "compare_transformers_version known_versions installed_here ''v4.28.0'' ''neq''
     = Inl (AssertionError []) \<and>
   compare_pytorch_version known_versions installed_here ''v2.0.0'' ''neq''
     = Inl (AssertionError []) \<and>
   known_versions (transformers_version installed_here) = Inr 43002 \<and>
   known_versions ''v4.28.0'' = Inr 42800 \<and>
   compare_transformers_version known_versions installed_here ''v4.28.0'' ''ge'' = Inr True \<and>
   compare_transformers_version known_versions installed_here ''v4.28.0'' ''eq'' = Inr False \<and>
   known_versions (torch_version installed_here) = Inr 20100 \<and>
   known_versions ''v2.0.0'' = Inr 20000 \<and>
   compare_pytorch_version known_versions installed_here ''v2.0.0'' ''lt'' = Inr False \<and>
   compare_pytorch_version known_versions installed_here ''v2.0.0'' ''gt'' = Inr True"
  using version_comparators
          [of "''neq''" known_versions installed_here "''v4.28.0''" 43002 42800 20100]
        version_comparators
          [of "''neq''" known_versions installed_here "''v2.0.0''" 43002 20000 20100]
  by (simp add: known_versions_def installed_here_def)

end
